theory Spec2Isabelle
  imports Main
begin

section \<open>Docker image tasks (prefect/tasks/docker/images.py)\<close>

text \<open>
  The module defines five task classes, \<open>ListImages\<close>, \<open>PullImage\<close>, \<open>PushImage\<close>,
  \<open>RemoveImage\<close> and \<open>TagImage\<close>. Each stores its constructor arguments as attributes
  and has a \<open>run\<close> method that validates its required arguments, builds a
  \<open>docker.APIClient\<close> and forwards one call to it.
\<close>

subsection \<open>Python values\<close>

text \<open>
  The arguments are annotated \<open>str\<close> and \<open>bool\<close> with \<open>None\<close> as a default, and the
  client returns strings, booleans and lists of dictionaries. Python does not enforce the
  annotations, so every argument ranges over all of these values.
\<close>

datatype pyval =
    PyNone
  | PyBool bool
  | PyInt int
  | PyStr string
  | PyList "pyval list"
  | PyDict "(pyval \<times> pyval) list"

text \<open>Truth value testing, as \<open>not x\<close> applies it.\<close>

fun truthy :: "pyval \<Rightarrow> bool" where
  "truthy PyNone = False"
| "truthy (PyBool b) = b"
| "truthy (PyInt i) = (i \<noteq> 0)"
| "truthy (PyStr s) = (s \<noteq> [])"
| "truthy (PyList xs) = (xs \<noteq> [])"
| "truthy (PyDict kvs) = (kvs \<noteq> [])"

text \<open>
  Exceptions: \<open>ValueError\<close> with its message, which the tasks raise themselves, and any
  other exception, which only the client raises.
\<close>

datatype 'x exn = ValueError string | OtherError 'x

subsection \<open>The docker client and the machine state\<close>

text \<open>
  The \<open>docker\<close> package is an external collaborator. \<open>APIClient d base_url\<close> is the
  constructor call \<open>docker.APIClient(base_url=...)\<close>; \<open>client_call d c name kwargs\<close> is the call
  \<open>c.name(**kwargs)\<close> on a client handle. Both act on the state of the daemon and may
  raise.
\<close>

record ('w, 'c, 'x) docker =
  APIClient :: "pyval \<Rightarrow> 'w \<Rightarrow> ('x exn + 'c) \<times> 'w"
  client_call :: "'c \<Rightarrow> string \<Rightarrow> (string \<times> pyval) list \<Rightarrow> 'w \<Rightarrow> ('x exn + pyval) \<times> 'w"

text \<open>
  What a run did to the collaborator, in order: \<open>NewClient base_url\<close> for a call of the
  constructor, \<open>Invoke c name kwargs\<close> for a call of the method \<open>name\<close> on the handle \<open>c\<close>.
\<close>

datatype 'c event =
    NewClient pyval
  | Invoke 'c string "(string \<times> pyval) list"

text \<open>
  The state a \<open>run\<close> method acts on: the task object \<open>self\<close>, the state of the daemon
  and the log of the calls made to the \<open>docker\<close> package.
\<close>

record ('t, 'w, 'c) state =
  self :: 't
  daemon :: 'w
  trace :: "'c event list"

type_synonym ('t, 'w, 'c, 'x, 'a) prog =
  "('t, 'w, 'c) state \<Rightarrow> ('x exn + 'a) \<times> ('t, 'w, 'c) state"

definition return_prog :: "'a \<Rightarrow> ('t, 'w, 'c, 'x, 'a) prog" where
  "return_prog v s = (Inr v, s)"

definition raise :: "'x exn \<Rightarrow> ('t, 'w, 'c, 'x, 'a) prog" where
  "raise e s = (Inl e, s)"

definition bind_prog ::
  "('t, 'w, 'c, 'x, 'a) prog \<Rightarrow> ('a \<Rightarrow> ('t, 'w, 'c, 'x, 'b) prog) \<Rightarrow> ('t, 'w, 'c, 'x, 'b) prog" where
  "bind_prog m f s = (case m s of (Inl e, s') \<Rightarrow> (Inl e, s') | (Inr v, s') \<Rightarrow> f v s')"

definition new_client ::
  "('w, 'c, 'x) docker \<Rightarrow> pyval \<Rightarrow> ('t, 'w, 'c, 'x, 'c) prog" where
  "new_client d base_url s =
     (case APIClient d base_url (daemon s) of
        (r, w) \<Rightarrow> (r, s\<lparr>daemon := w, trace := trace s @ [NewClient base_url]\<rparr>))"

definition invoke ::
  "('w, 'c, 'x) docker \<Rightarrow> 'c \<Rightarrow> string \<Rightarrow> (string \<times> pyval) list \<Rightarrow> ('t, 'w, 'c, 'x, pyval) prog" where
  "invoke d c name kwargs s =
     (case client_call d c name kwargs (daemon s) of
        (r, w) \<Rightarrow> (r, s\<lparr>daemon := w, trace := trace s @ [Invoke c name kwargs]\<rparr>))"

subsection \<open>Defaults from attributes\<close>

text \<open>
  Modelled from the spec: the decorator \<open>defaults_from_attrs\<close> of
  \<open>prefect.utilities.tasks\<close>, which wraps every \<open>run\<close> method, is not among the sources.
  The spec gives its rule per field: every field has an optional call-time override; if the
  call-time value is the field's unset sentinel, use the constructor-time value (the
  attribute of the task), otherwise use the call-time value. A call-time argument is
  therefore a \<open>pyval option\<close>: \<open>None\<close> is the unset sentinel, \<open>Some v\<close> is the value \<open>v\<close>
  given by the caller.
\<close>

definition defaults_from_attrs :: "pyval option \<Rightarrow> pyval \<Rightarrow> pyval" where
  "defaults_from_attrs call attr = (case call of None \<Rightarrow> attr | Some v \<Rightarrow> v)"

subsection \<open>The constructors\<close>

text \<open>
  A constructor argument is \<open>None\<close> when the caller leaves it out, and the parameter's
  default is taken then. The further keyword arguments go to the constructor of the base
  class \<open>Task\<close> and set none of the attributes below.
\<close>

definition arg :: "pyval option \<Rightarrow> pyval \<Rightarrow> pyval" where
  "arg given dflt = (case given of None \<Rightarrow> dflt | Some v \<Rightarrow> v)"

definition default_url :: pyval where
  "default_url = PyStr ''unix:///var/run/docker.sock''"

record ListImages =
  self_repository_name :: pyval
  self_all_layers :: pyval
  self_docker_server_url :: pyval

record PullImage =
  self_repository :: pyval
  self_tag :: pyval
  self_docker_server_url :: pyval

record PushImage =
  self_repository :: pyval
  self_tag :: pyval
  self_docker_server_url :: pyval

record RemoveImage =
  self_image :: pyval
  self_force :: pyval
  self_docker_server_url :: pyval

record TagImage =
  self_image :: pyval
  self_repository :: pyval
  self_tag :: pyval
  self_force :: pyval
  self_docker_server_url :: pyval

definition ListImages_init :: "pyval option \<Rightarrow> pyval option \<Rightarrow> pyval option \<Rightarrow> ListImages" where
  "ListImages_init repository_name all_layers docker_server_url =
     \<lparr>ListImages.self_repository_name = arg repository_name PyNone,
      ListImages.self_all_layers = arg all_layers (PyBool False),
      ListImages.self_docker_server_url = arg docker_server_url default_url\<rparr>"

definition PullImage_init :: "pyval option \<Rightarrow> pyval option \<Rightarrow> pyval option \<Rightarrow> PullImage" where
  "PullImage_init repository tag docker_server_url =
     \<lparr>PullImage.self_repository = arg repository PyNone,
      PullImage.self_tag = arg tag PyNone,
      PullImage.self_docker_server_url = arg docker_server_url default_url\<rparr>"

definition PushImage_init :: "pyval option \<Rightarrow> pyval option \<Rightarrow> pyval option \<Rightarrow> PushImage" where
  "PushImage_init repository tag docker_server_url =
     \<lparr>PushImage.self_repository = arg repository PyNone,
      PushImage.self_tag = arg tag PyNone,
      PushImage.self_docker_server_url = arg docker_server_url default_url\<rparr>"

definition RemoveImage_init :: "pyval option \<Rightarrow> pyval option \<Rightarrow> pyval option \<Rightarrow> RemoveImage" where
  "RemoveImage_init image' force docker_server_url =
     \<lparr>RemoveImage.self_image = arg image' PyNone,
      RemoveImage.self_force = arg force (PyBool False),
      RemoveImage.self_docker_server_url = arg docker_server_url default_url\<rparr>"

definition TagImage_init ::
  "pyval option \<Rightarrow> pyval option \<Rightarrow> pyval option \<Rightarrow> pyval option \<Rightarrow> pyval option \<Rightarrow> TagImage" where
  "TagImage_init image' repository tag force docker_server_url =
     \<lparr>TagImage.self_image = arg image' PyNone,
      TagImage.self_repository = arg repository PyNone,
      TagImage.self_tag = arg tag PyNone,
      TagImage.self_force = arg force (PyBool False),
      TagImage.self_docker_server_url = arg docker_server_url default_url\<rparr>"

subsection \<open>The run methods\<close>

text \<open>
  Each \<open>run\<close> method comes in two layers, as in the source: the body of the method, on
  the effective arguments, and the decorated method, which resolves every argument named
  in its \<open>defaults_from_attrs\<close> line against the attribute of the same name. Every
  parameter of every \<open>run\<close> is named in that line, so the body always receives the
  resolved value and the defaults of the signature are never taken.
\<close>

definition ListImages_body ::
  "('w, 'c, 'x) docker \<Rightarrow> pyval \<Rightarrow> pyval \<Rightarrow> pyval \<Rightarrow> ('t, 'w, 'c, 'x, pyval) prog" where
  "ListImages_body d repository_name all_layers docker_server_url =
     bind_prog (new_client d docker_server_url) (\<lambda>client.
       invoke d client ''images'' [(''name'', repository_name), (''all'', all_layers)])"

definition PullImage_body ::
  "('w, 'c, 'x) docker \<Rightarrow> pyval \<Rightarrow> pyval \<Rightarrow> pyval \<Rightarrow> ('t, 'w, 'c, 'x, pyval) prog" where
  "PullImage_body d repository tag docker_server_url =
     (if \<not> truthy repository
      then raise (ValueError ''A repository to pull the image from must be specified.'')
      else bind_prog (new_client d docker_server_url) (\<lambda>client.
        invoke d client ''pull'' [(''repository'', repository), (''tag'', tag)]))"

definition PushImage_body ::
  "('w, 'c, 'x) docker \<Rightarrow> pyval \<Rightarrow> pyval \<Rightarrow> pyval \<Rightarrow> ('t, 'w, 'c, 'x, pyval) prog" where
  "PushImage_body d repository tag docker_server_url =
     (if \<not> truthy repository
      then raise (ValueError ''A repository to push the image to must be specified.'')
      else bind_prog (new_client d docker_server_url) (\<lambda>client.
        invoke d client ''push'' [(''repository'', repository), (''tag'', tag)]))"

definition RemoveImage_body ::
  "('w, 'c, 'x) docker \<Rightarrow> pyval \<Rightarrow> pyval \<Rightarrow> pyval \<Rightarrow> ('t, 'w, 'c, 'x, pyval) prog" where
  "RemoveImage_body d image' force docker_server_url =
     (if \<not> truthy image'
      then raise (ValueError ''The name of an image to remove must be provided.'')
      else bind_prog (new_client d docker_server_url) (\<lambda>client.
        bind_prog (invoke d client ''remove'' [(''image'', image'), (''force'', force)]) (\<lambda>_.
          return_prog PyNone)))"

definition TagImage_body ::
  "('w, 'c, 'x) docker \<Rightarrow> pyval \<Rightarrow> pyval \<Rightarrow> pyval \<Rightarrow> pyval \<Rightarrow> pyval \<Rightarrow>
     ('t, 'w, 'c, 'x, pyval) prog" where
  "TagImage_body d image' repository tag force docker_server_url =
     (if \<not> truthy image' \<or> \<not> truthy repository
      then raise (ValueError ''Both image and repository must be provided.'')
      else bind_prog (new_client d docker_server_url) (\<lambda>client.
        invoke d client ''tag''
          [(''image'', image'), (''repository'', repository), (''tag'', tag), (''force'', force)]))"

definition ListImages_run ::
  "('w, 'c, 'x) docker \<Rightarrow> pyval option \<Rightarrow> pyval option \<Rightarrow> pyval option \<Rightarrow>
     (ListImages, 'w, 'c, 'x, pyval) prog" where
  "ListImages_run d repository_name all_layers docker_server_url s =
     ListImages_body d
       (defaults_from_attrs repository_name (ListImages.self_repository_name (self s)))
       (defaults_from_attrs all_layers (ListImages.self_all_layers (self s)))
       (defaults_from_attrs docker_server_url (ListImages.self_docker_server_url (self s))) s"

definition PullImage_run ::
  "('w, 'c, 'x) docker \<Rightarrow> pyval option \<Rightarrow> pyval option \<Rightarrow> pyval option \<Rightarrow>
     (PullImage, 'w, 'c, 'x, pyval) prog" where
  "PullImage_run d repository tag docker_server_url s =
     PullImage_body d
       (defaults_from_attrs repository (PullImage.self_repository (self s)))
       (defaults_from_attrs tag (PullImage.self_tag (self s)))
       (defaults_from_attrs docker_server_url (PullImage.self_docker_server_url (self s))) s"

definition PushImage_run ::
  "('w, 'c, 'x) docker \<Rightarrow> pyval option \<Rightarrow> pyval option \<Rightarrow> pyval option \<Rightarrow>
     (PushImage, 'w, 'c, 'x, pyval) prog" where
  "PushImage_run d repository tag docker_server_url s =
     PushImage_body d
       (defaults_from_attrs repository (PushImage.self_repository (self s)))
       (defaults_from_attrs tag (PushImage.self_tag (self s)))
       (defaults_from_attrs docker_server_url (PushImage.self_docker_server_url (self s))) s"

definition RemoveImage_run ::
  "('w, 'c, 'x) docker \<Rightarrow> pyval option \<Rightarrow> pyval option \<Rightarrow> pyval option \<Rightarrow>
     (RemoveImage, 'w, 'c, 'x, pyval) prog" where
  "RemoveImage_run d image' force docker_server_url s =
     RemoveImage_body d
       (defaults_from_attrs image' (RemoveImage.self_image (self s)))
       (defaults_from_attrs force (RemoveImage.self_force (self s)))
       (defaults_from_attrs docker_server_url (RemoveImage.self_docker_server_url (self s))) s"

definition TagImage_run ::
  "('w, 'c, 'x) docker \<Rightarrow> pyval option \<Rightarrow> pyval option \<Rightarrow> pyval option \<Rightarrow>
     pyval option \<Rightarrow> pyval option \<Rightarrow> (TagImage, 'w, 'c, 'x, pyval) prog" where
  "TagImage_run d image' repository tag force docker_server_url s =
     TagImage_body d
       (defaults_from_attrs image' (TagImage.self_image (self s)))
       (defaults_from_attrs repository (TagImage.self_repository (self s)))
       (defaults_from_attrs tag (TagImage.self_tag (self s)))
       (defaults_from_attrs force (TagImage.self_force (self s)))
       (defaults_from_attrs docker_server_url (TagImage.self_docker_server_url (self s))) s"

subsection \<open>A stub collaborator and test objects\<close>

text \<open>
  A client whose constructor refuses one endpoint, whose handle is the endpoint itself, and
  whose methods all fail on the handle of a second endpoint. The daemon state counts the
  calls received. \<open>images\<close> yields a fixed list of two records.
\<close>

definition image_records :: pyval where
  "image_records =
     PyList [PyDict [(PyStr ''Id'', PyStr ''sha256:aa''), (PyStr ''Size'', PyInt 5)],
             PyDict [(PyStr ''Id'', PyStr ''sha256:bb''), (PyStr ''Size'', PyInt 7)]]"

definition stub :: "(nat, pyval, string) docker" where
  "stub =
     \<lparr>APIClient = (\<lambda>base_url w.
        (if base_url = PyStr ''tcp://0.0.0.0:2375''
         then Inl (OtherError ''connection refused'') else Inr base_url, Suc w)),
      client_call = (\<lambda>c name kwargs w.
        (if c = PyStr ''tcp://10.0.0.1:2375'' then Inl (OtherError ''daemon error'')
         else if name = ''images'' then Inr image_records
         else if name = ''tag'' then Inr (PyBool True)
         else if name = ''remove'' then Inr (PyBool True)
         else Inr (PyStr ''done''), Suc w))\<rparr>"

definition fresh :: "'t \<Rightarrow> ('t, nat, pyval) state" where
  "fresh task = \<lparr>self = task, daemon = 0, trace = []\<rparr>"

text \<open>The calls of a log: the endpoints of the clients built and the methods invoked.\<close>

fun new_clients :: "'c event list \<Rightarrow> pyval list" where
  "new_clients [] = []"
| "new_clients (NewClient base_url # es) = base_url # new_clients es"
| "new_clients (Invoke c name kwargs # es) = new_clients es"

fun invocations :: "'c event list \<Rightarrow> ('c \<times> string \<times> (string \<times> pyval) list) list" where
  "invocations [] = []"
| "invocations (NewClient base_url # es) = invocations es"
| "invocations (Invoke c name kwargs # es) = (c, name, kwargs) # invocations es"

text \<open>The events a run appends to the log.\<close>

definition events_of :: "('t, 'w, 'c, 'x, 'a) prog \<Rightarrow> ('t, 'w, 'c) state \<Rightarrow> 'c event list" where
  "events_of run s = drop (length (trace s)) (trace (snd (run s)))"

text \<open>
  The resolution rule in the words of the specification, and the log of a run that delegates:
  one client built against the endpoint and, when that returns a handle, one method call.
\<close>

abbreviation (input) effective :: "pyval option \<Rightarrow> pyval \<Rightarrow> pyval" where
  "effective call attr \<equiv> (case call of None \<Rightarrow> attr | Some v \<Rightarrow> v)"

text \<open>The value a constructor stores for a parameter: the argument given, or the default.\<close>

abbreviation (input) constructed :: "pyval option \<Rightarrow> pyval \<Rightarrow> pyval" where
  "constructed given dflt \<equiv> (case given of None \<Rightarrow> dflt | Some v \<Rightarrow> v)"

abbreviation (input) delegation ::
  "('w, 'c, 'x) docker \<Rightarrow> 'w \<Rightarrow> pyval \<Rightarrow> string \<Rightarrow> (string \<times> pyval) list \<Rightarrow> 'c event list" where
  "delegation d w base_url name kwargs \<equiv>
     NewClient base_url #
       (case fst (APIClient d base_url w) of Inl e \<Rightarrow> [] | Inr c \<Rightarrow> [Invoke c name kwargs])"

section \<open>Properties\<close>

lemmas prog_defs = return_prog_def raise_def bind_prog_def new_client_def invoke_def

lemmas init_defs = ListImages_init_def PullImage_init_def PushImage_init_def
  RemoveImage_init_def TagImage_init_def arg_def default_url_def

subsection \<open>One delegation\<close>

lemma delegate_trace:
  "trace (snd (bind_prog (new_client d base_url) (\<lambda>client. invoke d client name kwargs) s)) =
     trace s @ delegation d (daemon s) base_url name kwargs"
  by (simp add: prog_defs split: prod.splits sum.splits)

lemma delegate_trace_discard:
  "trace (snd (bind_prog (new_client d base_url)
      (\<lambda>client. bind_prog (invoke d client name kwargs) (\<lambda>_. return_prog v)) s)) =
     trace s @ delegation d (daemon s) base_url name kwargs"
  by (simp add: prog_defs split: prod.splits sum.splits)

lemma delegate_fst:
  "fst (bind_prog (new_client d base_url) (\<lambda>client. invoke d client name kwargs) s) =
     (case APIClient d base_url (daemon s) of
        (Inl e, w) \<Rightarrow> Inl e
      | (Inr c, w) \<Rightarrow> fst (client_call d c name kwargs w))"
  by (simp add: prog_defs split: prod.splits sum.splits)

lemma delegate_fst_discard:
  "fst (bind_prog (new_client d base_url)
      (\<lambda>client. bind_prog (invoke d client name kwargs) (\<lambda>_. return_prog v)) s) =
     (case APIClient d base_url (daemon s) of
        (Inl e, w) \<Rightarrow> Inl e
      | (Inr c, w) \<Rightarrow> (case fst (client_call d c name kwargs w) of Inl e \<Rightarrow> Inl e | Inr r \<Rightarrow> Inr v))"
  by (simp add: prog_defs split: prod.splits sum.splits)

lemma delegate_self:
  "self (snd (bind_prog (new_client d base_url) (\<lambda>client. invoke d client name kwargs) s)) = self s"
  by (simp add: prog_defs split: prod.splits sum.splits)

lemma delegate_self_discard:
  "self (snd (bind_prog (new_client d base_url)
      (\<lambda>client. bind_prog (invoke d client name kwargs) (\<lambda>_. return_prog v)) s)) = self s"
  by (simp add: prog_defs split: prod.splits sum.splits)

lemma delegate_returns:
  assumes "APIClient d base_url (daemon s) = (Inr c, w)"
    and "client_call d c name kwargs w = (res, w')"
  shows "bind_prog (new_client d base_url) (\<lambda>client. invoke d client name kwargs) s =
     (res, s\<lparr>daemon := w', trace := trace s @ [NewClient base_url, Invoke c name kwargs]\<rparr>)"
  using assms by (simp add: prog_defs)

subsection \<open>The bodies, by the outcome of validation\<close>

lemma ListImages_body_eq:
  "ListImages_body d repository_name all_layers docker_server_url =
     bind_prog (new_client d docker_server_url) (\<lambda>client.
       invoke d client ''images'' [(''name'', repository_name), (''all'', all_layers)])"
  by (simp add: ListImages_body_def)

lemma PullImage_body_invalid:
  "\<not> truthy repository \<Longrightarrow> PullImage_body d repository tag docker_server_url s =
     (Inl (ValueError ''A repository to pull the image from must be specified.''), s)"
  by (simp add: PullImage_body_def raise_def)

lemma PullImage_body_valid:
  "truthy repository \<Longrightarrow> PullImage_body d repository tag docker_server_url =
     bind_prog (new_client d docker_server_url) (\<lambda>client.
       invoke d client ''pull'' [(''repository'', repository), (''tag'', tag)])"
  by (simp add: PullImage_body_def)

lemma PushImage_body_invalid:
  "\<not> truthy repository \<Longrightarrow> PushImage_body d repository tag docker_server_url s =
     (Inl (ValueError ''A repository to push the image to must be specified.''), s)"
  by (simp add: PushImage_body_def raise_def)

lemma PushImage_body_valid:
  "truthy repository \<Longrightarrow> PushImage_body d repository tag docker_server_url =
     bind_prog (new_client d docker_server_url) (\<lambda>client.
       invoke d client ''push'' [(''repository'', repository), (''tag'', tag)])"
  by (simp add: PushImage_body_def)

lemma RemoveImage_body_invalid:
  "\<not> truthy image' \<Longrightarrow> RemoveImage_body d image' force docker_server_url s =
     (Inl (ValueError ''The name of an image to remove must be provided.''), s)"
  by (simp add: RemoveImage_body_def raise_def)

lemma RemoveImage_body_valid:
  "truthy image' \<Longrightarrow> RemoveImage_body d image' force docker_server_url =
     bind_prog (new_client d docker_server_url) (\<lambda>client.
       bind_prog (invoke d client ''remove'' [(''image'', image'), (''force'', force)]) (\<lambda>_.
         return_prog PyNone))"
  by (simp add: RemoveImage_body_def)

lemma TagImage_body_invalid:
  "\<not> truthy image' \<or> \<not> truthy repository \<Longrightarrow>
   TagImage_body d image' repository tag force docker_server_url s =
     (Inl (ValueError ''Both image and repository must be provided.''), s)"
  by (auto simp add: TagImage_body_def raise_def)

lemma TagImage_body_valid:
  "truthy image' \<Longrightarrow> truthy repository \<Longrightarrow>
   TagImage_body d image' repository tag force docker_server_url =
     bind_prog (new_client d docker_server_url) (\<lambda>client.
       invoke d client ''tag''
         [(''image'', image'), (''repository'', repository), (''tag'', tag), (''force'', force)])"
  by (simp add: TagImage_body_def)

subsection \<open>The log of a run\<close>

lemma ListImages_run_trace:
  "trace (snd (ListImages_run d n a u s)) =
     trace s @ delegation d (daemon s)
       (defaults_from_attrs u (ListImages.self_docker_server_url (self s))) ''images''
       [(''name'', defaults_from_attrs n (ListImages.self_repository_name (self s))),
        (''all'', defaults_from_attrs a (ListImages.self_all_layers (self s)))]"
  by (simp only: ListImages_run_def ListImages_body_eq delegate_trace)

lemma PullImage_run_trace:
  "truthy (defaults_from_attrs r (PullImage.self_repository (self s))) \<Longrightarrow>
   trace (snd (PullImage_run d r t u s)) =
     trace s @ delegation d (daemon s)
       (defaults_from_attrs u (PullImage.self_docker_server_url (self s))) ''pull''
       [(''repository'', defaults_from_attrs r (PullImage.self_repository (self s))),
        (''tag'', defaults_from_attrs t (PullImage.self_tag (self s)))]"
  by (simp only: PullImage_run_def PullImage_body_valid delegate_trace)

lemma PushImage_run_trace:
  "truthy (defaults_from_attrs r (PushImage.self_repository (self s))) \<Longrightarrow>
   trace (snd (PushImage_run d r t u s)) =
     trace s @ delegation d (daemon s)
       (defaults_from_attrs u (PushImage.self_docker_server_url (self s))) ''push''
       [(''repository'', defaults_from_attrs r (PushImage.self_repository (self s))),
        (''tag'', defaults_from_attrs t (PushImage.self_tag (self s)))]"
  by (simp only: PushImage_run_def PushImage_body_valid delegate_trace)

lemma RemoveImage_run_trace:
  "truthy (defaults_from_attrs i (RemoveImage.self_image (self s))) \<Longrightarrow>
   trace (snd (RemoveImage_run d i f u s)) =
     trace s @ delegation d (daemon s)
       (defaults_from_attrs u (RemoveImage.self_docker_server_url (self s))) ''remove''
       [(''image'', defaults_from_attrs i (RemoveImage.self_image (self s))),
        (''force'', defaults_from_attrs f (RemoveImage.self_force (self s)))]"
  by (simp only: RemoveImage_run_def RemoveImage_body_valid delegate_trace_discard)

lemma TagImage_run_trace:
  "truthy (defaults_from_attrs i (TagImage.self_image (self s))) \<Longrightarrow>
   truthy (defaults_from_attrs r (TagImage.self_repository (self s))) \<Longrightarrow>
   trace (snd (TagImage_run d i r t f u s)) =
     trace s @ delegation d (daemon s)
       (defaults_from_attrs u (TagImage.self_docker_server_url (self s))) ''tag''
       [(''image'', defaults_from_attrs i (TagImage.self_image (self s))),
        (''repository'', defaults_from_attrs r (TagImage.self_repository (self s))),
        (''tag'', defaults_from_attrs t (TagImage.self_tag (self s))),
        (''force'', defaults_from_attrs f (TagImage.self_force (self s)))]"
  by (simp only: TagImage_run_def TagImage_body_valid delegate_trace)

lemma PullImage_run_invalid:
  "\<not> truthy (defaults_from_attrs r (PullImage.self_repository (self s))) \<Longrightarrow>
   PullImage_run d r t u s =
     (Inl (ValueError ''A repository to pull the image from must be specified.''), s)"
  by (simp add: PullImage_run_def PullImage_body_invalid)

lemma PushImage_run_invalid:
  "\<not> truthy (defaults_from_attrs r (PushImage.self_repository (self s))) \<Longrightarrow>
   PushImage_run d r t u s =
     (Inl (ValueError ''A repository to push the image to must be specified.''), s)"
  by (simp add: PushImage_run_def PushImage_body_invalid)

lemma RemoveImage_run_invalid:
  "\<not> truthy (defaults_from_attrs i (RemoveImage.self_image (self s))) \<Longrightarrow>
   RemoveImage_run d i f u s =
     (Inl (ValueError ''The name of an image to remove must be provided.''), s)"
  by (simp add: RemoveImage_run_def RemoveImage_body_invalid)

lemma TagImage_run_invalid:
  "\<not> truthy (defaults_from_attrs i (TagImage.self_image (self s))) \<or>
   \<not> truthy (defaults_from_attrs r (TagImage.self_repository (self s))) \<Longrightarrow>
   TagImage_run d i r t f u s =
     (Inl (ValueError ''Both image and repository must be provided.''), s)"
  by (simp only: TagImage_run_def TagImage_body_invalid)

lemmas run_trace = ListImages_run_trace PullImage_run_trace PushImage_run_trace
  RemoveImage_run_trace TagImage_run_trace

lemmas run_invalid = PullImage_run_invalid PushImage_run_invalid
  RemoveImage_run_invalid TagImage_run_invalid

subsection \<open>The events of a run\<close>

lemma ListImages_run_events:
  "events_of (ListImages_run d n a u) s =
     delegation d (daemon s)
       (defaults_from_attrs u (ListImages.self_docker_server_url (self s))) ''images''
       [(''name'', defaults_from_attrs n (ListImages.self_repository_name (self s))),
        (''all'', defaults_from_attrs a (ListImages.self_all_layers (self s)))]"
  by (simp add: events_of_def ListImages_run_trace)

lemma PullImage_run_events:
  "events_of (PullImage_run d r t u) s =
     (if truthy (defaults_from_attrs r (PullImage.self_repository (self s)))
      then delegation d (daemon s)
        (defaults_from_attrs u (PullImage.self_docker_server_url (self s))) ''pull''
        [(''repository'', defaults_from_attrs r (PullImage.self_repository (self s))),
         (''tag'', defaults_from_attrs t (PullImage.self_tag (self s)))]
      else [])"
proof (cases "truthy (defaults_from_attrs r (PullImage.self_repository (self s)))")
  case True
  then show ?thesis
    by (simp add: events_of_def PullImage_run_trace)
next
  case False
  then show ?thesis
    by (simp add: events_of_def PullImage_run_invalid)
qed

lemma PushImage_run_events:
  "events_of (PushImage_run d r t u) s =
     (if truthy (defaults_from_attrs r (PushImage.self_repository (self s)))
      then delegation d (daemon s)
        (defaults_from_attrs u (PushImage.self_docker_server_url (self s))) ''push''
        [(''repository'', defaults_from_attrs r (PushImage.self_repository (self s))),
         (''tag'', defaults_from_attrs t (PushImage.self_tag (self s)))]
      else [])"
proof (cases "truthy (defaults_from_attrs r (PushImage.self_repository (self s)))")
  case True
  then show ?thesis
    by (simp add: events_of_def PushImage_run_trace)
next
  case False
  then show ?thesis
    by (simp add: events_of_def PushImage_run_invalid)
qed

lemma RemoveImage_run_events:
  "events_of (RemoveImage_run d i f u) s =
     (if truthy (defaults_from_attrs i (RemoveImage.self_image (self s)))
      then delegation d (daemon s)
        (defaults_from_attrs u (RemoveImage.self_docker_server_url (self s))) ''remove''
        [(''image'', defaults_from_attrs i (RemoveImage.self_image (self s))),
         (''force'', defaults_from_attrs f (RemoveImage.self_force (self s)))]
      else [])"
proof (cases "truthy (defaults_from_attrs i (RemoveImage.self_image (self s)))")
  case True
  then show ?thesis
    by (simp add: events_of_def RemoveImage_run_trace)
next
  case False
  then show ?thesis
    by (simp add: events_of_def RemoveImage_run_invalid)
qed

lemma TagImage_run_events:
  "events_of (TagImage_run d i r t f u) s =
     (if truthy (defaults_from_attrs i (TagImage.self_image (self s))) \<and>
         truthy (defaults_from_attrs r (TagImage.self_repository (self s)))
      then delegation d (daemon s)
        (defaults_from_attrs u (TagImage.self_docker_server_url (self s))) ''tag''
        [(''image'', defaults_from_attrs i (TagImage.self_image (self s))),
         (''repository'', defaults_from_attrs r (TagImage.self_repository (self s))),
         (''tag'', defaults_from_attrs t (TagImage.self_tag (self s))),
         (''force'', defaults_from_attrs f (TagImage.self_force (self s)))]
      else [])"
proof (cases "truthy (defaults_from_attrs i (TagImage.self_image (self s))) \<and>
         truthy (defaults_from_attrs r (TagImage.self_repository (self s)))")
  case True
  then show ?thesis
    by (simp add: events_of_def TagImage_run_trace)
next
  case False
  then have "\<not> truthy (defaults_from_attrs i (TagImage.self_image (self s))) \<or>
      \<not> truthy (defaults_from_attrs r (TagImage.self_repository (self s)))"
    by simp
  then have "events_of (TagImage_run d i r t f u) s = []"
    by (simp add: events_of_def TagImage_run_invalid)
  with False show ?thesis by auto
qed

subsection \<open>The outcome of a run\<close>

lemma ListImages_run_fst:
  "fst (ListImages_run d n a u s) =
     (case APIClient d (defaults_from_attrs u (ListImages.self_docker_server_url (self s)))
             (daemon s) of
        (Inl e, w) \<Rightarrow> Inl e
      | (Inr c, w) \<Rightarrow> fst (client_call d c ''images''
          [(''name'', defaults_from_attrs n (ListImages.self_repository_name (self s))),
           (''all'', defaults_from_attrs a (ListImages.self_all_layers (self s)))] w))"
  by (simp only: ListImages_run_def ListImages_body_eq delegate_fst)

lemma PullImage_run_fst:
  "truthy (defaults_from_attrs r (PullImage.self_repository (self s))) \<Longrightarrow>
   fst (PullImage_run d r t u s) =
     (case APIClient d (defaults_from_attrs u (PullImage.self_docker_server_url (self s)))
             (daemon s) of
        (Inl e, w) \<Rightarrow> Inl e
      | (Inr c, w) \<Rightarrow> fst (client_call d c ''pull''
          [(''repository'', defaults_from_attrs r (PullImage.self_repository (self s))),
           (''tag'', defaults_from_attrs t (PullImage.self_tag (self s)))] w))"
  by (simp only: PullImage_run_def PullImage_body_valid delegate_fst)

lemma PushImage_run_fst:
  "truthy (defaults_from_attrs r (PushImage.self_repository (self s))) \<Longrightarrow>
   fst (PushImage_run d r t u s) =
     (case APIClient d (defaults_from_attrs u (PushImage.self_docker_server_url (self s)))
             (daemon s) of
        (Inl e, w) \<Rightarrow> Inl e
      | (Inr c, w) \<Rightarrow> fst (client_call d c ''push''
          [(''repository'', defaults_from_attrs r (PushImage.self_repository (self s))),
           (''tag'', defaults_from_attrs t (PushImage.self_tag (self s)))] w))"
  by (simp only: PushImage_run_def PushImage_body_valid delegate_fst)

lemma RemoveImage_run_fst:
  "truthy (defaults_from_attrs i (RemoveImage.self_image (self s))) \<Longrightarrow>
   fst (RemoveImage_run d i f u s) =
     (case APIClient d (defaults_from_attrs u (RemoveImage.self_docker_server_url (self s)))
             (daemon s) of
        (Inl e, w) \<Rightarrow> Inl e
      | (Inr c, w) \<Rightarrow>
          (case fst (client_call d c ''remove''
             [(''image'', defaults_from_attrs i (RemoveImage.self_image (self s))),
              (''force'', defaults_from_attrs f (RemoveImage.self_force (self s)))] w) of
             Inl e \<Rightarrow> Inl e
           | Inr v \<Rightarrow> Inr PyNone))"
  by (simp only: RemoveImage_run_def RemoveImage_body_valid delegate_fst_discard)

lemma TagImage_run_fst:
  "truthy (defaults_from_attrs i (TagImage.self_image (self s))) \<Longrightarrow>
   truthy (defaults_from_attrs r (TagImage.self_repository (self s))) \<Longrightarrow>
   fst (TagImage_run d i r t f u s) =
     (case APIClient d (defaults_from_attrs u (TagImage.self_docker_server_url (self s)))
             (daemon s) of
        (Inl e, w) \<Rightarrow> Inl e
      | (Inr c, w) \<Rightarrow> fst (client_call d c ''tag''
          [(''image'', defaults_from_attrs i (TagImage.self_image (self s))),
           (''repository'', defaults_from_attrs r (TagImage.self_repository (self s))),
           (''tag'', defaults_from_attrs t (TagImage.self_tag (self s))),
           (''force'', defaults_from_attrs f (TagImage.self_force (self s)))] w))"
  by (simp only: TagImage_run_def TagImage_body_valid delegate_fst)

lemmas run_fst = ListImages_run_fst PullImage_run_fst PushImage_run_fst
  RemoveImage_run_fst TagImage_run_fst

subsection \<open>The task object after a run\<close>

lemma ListImages_run_self: "self (snd (ListImages_run d n a u s)) = self s"
  by (simp only: ListImages_run_def ListImages_body_eq delegate_self)

lemma PullImage_run_self: "self (snd (PullImage_run d r t u s)) = self s"
proof (cases "truthy (defaults_from_attrs r (PullImage.self_repository (self s)))")
  case True
  then show ?thesis
    by (simp only: PullImage_run_def PullImage_body_valid delegate_self)
next
  case False
  then show ?thesis by (simp add: PullImage_run_invalid)
qed

lemma PushImage_run_self: "self (snd (PushImage_run d r t u s)) = self s"
proof (cases "truthy (defaults_from_attrs r (PushImage.self_repository (self s)))")
  case True
  then show ?thesis
    by (simp only: PushImage_run_def PushImage_body_valid delegate_self)
next
  case False
  then show ?thesis by (simp add: PushImage_run_invalid)
qed

lemma RemoveImage_run_self: "self (snd (RemoveImage_run d i f u s)) = self s"
proof (cases "truthy (defaults_from_attrs i (RemoveImage.self_image (self s)))")
  case True
  then show ?thesis
    by (simp only: RemoveImage_run_def RemoveImage_body_valid delegate_self_discard)
next
  case False
  then show ?thesis by (simp add: RemoveImage_run_invalid)
qed

lemma TagImage_run_self: "self (snd (TagImage_run d i r t f u s)) = self s"
proof (cases "truthy (defaults_from_attrs i (TagImage.self_image (self s))) \<and>
         truthy (defaults_from_attrs r (TagImage.self_repository (self s)))")
  case True
  then show ?thesis
    by (simp only: TagImage_run_def TagImage_body_valid delegate_self)
next
  case False
  then show ?thesis by (simp add: TagImage_run_invalid)
qed

lemmas run_self = ListImages_run_self PullImage_run_self PushImage_run_self
  RemoveImage_run_self TagImage_run_self

subsection \<open>The resolution rule\<close>

lemma defaults_from_attrs_unset: "defaults_from_attrs None attr = attr"
  by (simp add: defaults_from_attrs_def)

lemma defaults_from_attrs_set: "defaults_from_attrs (Some v) attr = v"
  by (simp add: defaults_from_attrs_def)


subsection \<open>Counting the calls of a run\<close>

lemma new_clients_case:
  "new_clients (case x of Inl e \<Rightarrow> [] | Inr c \<Rightarrow> [Invoke c name kwargs]) = []"
  by (cases x) simp_all

lemma invocations_case:
  "length (invocations (case x of Inl e \<Rightarrow> [] | Inr c \<Rightarrow> [Invoke c name kwargs])) \<le> Suc 0"
  by (cases x) simp_all

lemma ListImages_run_new_clients:
  "new_clients (events_of (ListImages_run d n a u) s) =
     [defaults_from_attrs u (ListImages.self_docker_server_url (self s))]"
  by (simp add: ListImages_run_events new_clients_case)

lemma PullImage_run_new_clients:
  "new_clients (events_of (PullImage_run d r t u) s) =
     (if truthy (defaults_from_attrs r (PullImage.self_repository (self s)))
      then [defaults_from_attrs u (PullImage.self_docker_server_url (self s))] else [])"
  by (simp add: PullImage_run_events new_clients_case)

lemma PushImage_run_new_clients:
  "new_clients (events_of (PushImage_run d r t u) s) =
     (if truthy (defaults_from_attrs r (PushImage.self_repository (self s)))
      then [defaults_from_attrs u (PushImage.self_docker_server_url (self s))] else [])"
  by (simp add: PushImage_run_events new_clients_case)

lemma RemoveImage_run_new_clients:
  "new_clients (events_of (RemoveImage_run d i f u) s) =
     (if truthy (defaults_from_attrs i (RemoveImage.self_image (self s)))
      then [defaults_from_attrs u (RemoveImage.self_docker_server_url (self s))] else [])"
  by (simp add: RemoveImage_run_events new_clients_case)

lemma TagImage_run_new_clients:
  "new_clients (events_of (TagImage_run d i r t f u) s) =
     (if truthy (defaults_from_attrs i (TagImage.self_image (self s))) \<and>
         truthy (defaults_from_attrs r (TagImage.self_repository (self s)))
      then [defaults_from_attrs u (TagImage.self_docker_server_url (self s))] else [])"
  by (simp add: TagImage_run_events new_clients_case)

lemmas run_new_clients = ListImages_run_new_clients PullImage_run_new_clients
  PushImage_run_new_clients RemoveImage_run_new_clients TagImage_run_new_clients

lemma ListImages_run_invocations:
  "length (invocations (events_of (ListImages_run d n a u) s)) \<le> 1"
  by (simp add: ListImages_run_events invocations_case)

lemma PullImage_run_invocations:
  "length (invocations (events_of (PullImage_run d r t u) s)) \<le> 1"
  by (simp add: PullImage_run_events invocations_case)

lemma PushImage_run_invocations:
  "length (invocations (events_of (PushImage_run d r t u) s)) \<le> 1"
  by (simp add: PushImage_run_events invocations_case)

lemma RemoveImage_run_invocations:
  "length (invocations (events_of (RemoveImage_run d i f u) s)) \<le> 1"
  by (simp add: RemoveImage_run_events invocations_case)

lemma TagImage_run_invocations:
  "length (invocations (events_of (TagImage_run d i r t f u) s)) \<le> 1"
  by (simp add: TagImage_run_events invocations_case)

lemmas run_invocations = ListImages_run_invocations PullImage_run_invocations
  PushImage_run_invocations RemoveImage_run_invocations TagImage_run_invocations

subsection \<open>The log of a run on a task as constructed\<close>

lemma ListImages_init_run_trace:
  "self s = ListImages_init cn ca cu \<Longrightarrow>
   trace (snd (ListImages_run d n a u s)) =
        trace s @ delegation d (daemon s)
          (defaults_from_attrs u (arg cu default_url)) ''images''
          [(''name'', defaults_from_attrs n (arg cn PyNone)),
           (''all'', defaults_from_attrs a (arg ca (PyBool False)))]"
  by (simp add: ListImages_run_trace ListImages_init_def cong: sum.case_cong)

lemma PullImage_init_run_trace:
  "self s = PullImage_init cr ct cu \<Longrightarrow>
   truthy (defaults_from_attrs r (arg cr PyNone)) \<Longrightarrow>
   trace (snd (PullImage_run d r t u s)) =
        trace s @ delegation d (daemon s)
          (defaults_from_attrs u (arg cu default_url)) ''pull''
          [(''repository'', defaults_from_attrs r (arg cr PyNone)),
           (''tag'', defaults_from_attrs t (arg ct PyNone))]"
  by (simp add: PullImage_run_trace PullImage_init_def cong: sum.case_cong)

lemma PushImage_init_run_trace:
  "self s = PushImage_init cr ct cu \<Longrightarrow>
   truthy (defaults_from_attrs r (arg cr PyNone)) \<Longrightarrow>
   trace (snd (PushImage_run d r t u s)) =
        trace s @ delegation d (daemon s)
          (defaults_from_attrs u (arg cu default_url)) ''push''
          [(''repository'', defaults_from_attrs r (arg cr PyNone)),
           (''tag'', defaults_from_attrs t (arg ct PyNone))]"
  by (simp add: PushImage_run_trace PushImage_init_def cong: sum.case_cong)

lemma RemoveImage_init_run_trace:
  "self s = RemoveImage_init ci cf cu \<Longrightarrow>
   truthy (defaults_from_attrs i (arg ci PyNone)) \<Longrightarrow>
   trace (snd (RemoveImage_run d i f u s)) =
        trace s @ delegation d (daemon s)
          (defaults_from_attrs u (arg cu default_url)) ''remove''
          [(''image'', defaults_from_attrs i (arg ci PyNone)),
           (''force'', defaults_from_attrs f (arg cf (PyBool False)))]"
  by (simp add: RemoveImage_run_trace RemoveImage_init_def cong: sum.case_cong)

lemma TagImage_init_run_trace:
  "self s = TagImage_init ci cr ct cf cu \<Longrightarrow>
   truthy (defaults_from_attrs i (arg ci PyNone)) \<Longrightarrow>
   truthy (defaults_from_attrs r (arg cr PyNone)) \<Longrightarrow>
   trace (snd (TagImage_run d i r t f u s)) =
        trace s @ delegation d (daemon s)
          (defaults_from_attrs u (arg cu default_url)) ''tag''
          [(''image'', defaults_from_attrs i (arg ci PyNone)),
           (''repository'', defaults_from_attrs r (arg cr PyNone)),
           (''tag'', defaults_from_attrs t (arg ct PyNone)),
           (''force'', defaults_from_attrs f (arg cf (PyBool False)))]"
  by (simp add: TagImage_run_trace TagImage_init_def cong: sum.case_cong)

lemmas init_run_trace = ListImages_init_run_trace PullImage_init_run_trace PushImage_init_run_trace
  RemoveImage_init_run_trace TagImage_init_run_trace

section \<open>The claims\<close>

text \<open>
  C1, as amended: in each of the five tasks, every value handed to the client (the endpoint
  of the constructor call and every keyword argument of the method call) is the call-time
  argument whenever the caller gives one, an explicit \<open>None\<close> included, and the attribute
  of the task only when the caller leaves the argument out; each field is resolved from its
  own pair of values only. The first five conjuncts state this for any task object, the
  last five for a task as its constructor built it, where the attribute is the constructor
  argument or else the default of the parameter.
\<close>

theorem C1_effective_values:
  "trace (snd (ListImages_run d n1 a1 u1 s1)) =
        trace s1 @ delegation d (daemon s1)
          (effective u1 (ListImages.self_docker_server_url (self s1))) ''images''
          [(''name'', effective n1 (ListImages.self_repository_name (self s1))),
           (''all'', effective a1 (ListImages.self_all_layers (self s1)))]
   \<and> (truthy (effective r2 (PullImage.self_repository (self s2))) \<longrightarrow>
      trace (snd (PullImage_run d r2 t2 u2 s2)) =
        trace s2 @ delegation d (daemon s2)
          (effective u2 (PullImage.self_docker_server_url (self s2))) ''pull''
          [(''repository'', effective r2 (PullImage.self_repository (self s2))),
           (''tag'', effective t2 (PullImage.self_tag (self s2)))])
   \<and> (truthy (effective r3 (PushImage.self_repository (self s3))) \<longrightarrow>
      trace (snd (PushImage_run d r3 t3 u3 s3)) =
        trace s3 @ delegation d (daemon s3)
          (effective u3 (PushImage.self_docker_server_url (self s3))) ''push''
          [(''repository'', effective r3 (PushImage.self_repository (self s3))),
           (''tag'', effective t3 (PushImage.self_tag (self s3)))])
   \<and> (truthy (effective i4 (RemoveImage.self_image (self s4))) \<longrightarrow>
      trace (snd (RemoveImage_run d i4 f4 u4 s4)) =
        trace s4 @ delegation d (daemon s4)
          (effective u4 (RemoveImage.self_docker_server_url (self s4))) ''remove''
          [(''image'', effective i4 (RemoveImage.self_image (self s4))),
           (''force'', effective f4 (RemoveImage.self_force (self s4)))])
   \<and> (truthy (effective i5 (TagImage.self_image (self s5))) \<and>
      truthy (effective r5 (TagImage.self_repository (self s5))) \<longrightarrow>
      trace (snd (TagImage_run d i5 r5 t5 f5 u5 s5)) =
        trace s5 @ delegation d (daemon s5)
          (effective u5 (TagImage.self_docker_server_url (self s5))) ''tag''
          [(''image'', effective i5 (TagImage.self_image (self s5))),
           (''repository'', effective r5 (TagImage.self_repository (self s5))),
           (''tag'', effective t5 (TagImage.self_tag (self s5))),
           (''force'', effective f5 (TagImage.self_force (self s5)))])
   \<and> (self s1 = ListImages_init cn1 ca1 cu1 \<longrightarrow>
      trace (snd (ListImages_run d n1 a1 u1 s1)) =
        trace s1 @ delegation d (daemon s1)
          (effective u1 (constructed cu1 (PyStr ''unix:///var/run/docker.sock''))) ''images''
          [(''name'', effective n1 (constructed cn1 PyNone)),
           (''all'', effective a1 (constructed ca1 (PyBool False)))])
   \<and> (self s2 = PullImage_init cr2 ct2 cu2 \<and>
      truthy (effective r2 (constructed cr2 PyNone)) \<longrightarrow>
      trace (snd (PullImage_run d r2 t2 u2 s2)) =
        trace s2 @ delegation d (daemon s2)
          (effective u2 (constructed cu2 (PyStr ''unix:///var/run/docker.sock''))) ''pull''
          [(''repository'', effective r2 (constructed cr2 PyNone)),
           (''tag'', effective t2 (constructed ct2 PyNone))])
   \<and> (self s3 = PushImage_init cr3 ct3 cu3 \<and>
      truthy (effective r3 (constructed cr3 PyNone)) \<longrightarrow>
      trace (snd (PushImage_run d r3 t3 u3 s3)) =
        trace s3 @ delegation d (daemon s3)
          (effective u3 (constructed cu3 (PyStr ''unix:///var/run/docker.sock''))) ''push''
          [(''repository'', effective r3 (constructed cr3 PyNone)),
           (''tag'', effective t3 (constructed ct3 PyNone))])
   \<and> (self s4 = RemoveImage_init ci4 cf4 cu4 \<and>
      truthy (effective i4 (constructed ci4 PyNone)) \<longrightarrow>
      trace (snd (RemoveImage_run d i4 f4 u4 s4)) =
        trace s4 @ delegation d (daemon s4)
          (effective u4 (constructed cu4 (PyStr ''unix:///var/run/docker.sock''))) ''remove''
          [(''image'', effective i4 (constructed ci4 PyNone)),
           (''force'', effective f4 (constructed cf4 (PyBool False)))])
   \<and> (self s5 = TagImage_init ci5 cr5 ct5 cf5 cu5 \<and>
      truthy (effective i5 (constructed ci5 PyNone)) \<and>
      truthy (effective r5 (constructed cr5 PyNone)) \<longrightarrow>
      trace (snd (TagImage_run d i5 r5 t5 f5 u5 s5)) =
        trace s5 @ delegation d (daemon s5)
          (effective u5 (constructed cu5 (PyStr ''unix:///var/run/docker.sock''))) ''tag''
          [(''image'', effective i5 (constructed ci5 PyNone)),
           (''repository'', effective r5 (constructed cr5 PyNone)),
           (''tag'', effective t5 (constructed ct5 PyNone)),
           (''force'', effective f5 (constructed cf5 (PyBool False)))])"
  apply (intro conjI impI; (elim conjE)?)
  subgoal by (simp only: ListImages_run_trace [unfolded defaults_from_attrs_def])
  subgoal by (simp only: PullImage_run_trace [unfolded defaults_from_attrs_def])
  subgoal by (simp only: PushImage_run_trace [unfolded defaults_from_attrs_def])
  subgoal by (simp only: RemoveImage_run_trace [unfolded defaults_from_attrs_def])
  subgoal by (simp only: TagImage_run_trace [unfolded defaults_from_attrs_def])
  subgoal
    by (rule ListImages_init_run_trace [unfolded defaults_from_attrs_def arg_def default_url_def])
  subgoal
    by (rule PullImage_init_run_trace [unfolded defaults_from_attrs_def arg_def default_url_def])
  subgoal
    by (rule PushImage_init_run_trace [unfolded defaults_from_attrs_def arg_def default_url_def])
  subgoal
    by (rule RemoveImage_init_run_trace [unfolded defaults_from_attrs_def arg_def default_url_def])
  subgoal
    by (rule TagImage_init_run_trace [unfolded defaults_from_attrs_def arg_def default_url_def])
  done

theorem C1_effective_values_witness:
  "trace (snd (ListImages_run stub None (Some (PyBool True)) None
       (fresh (ListImages_init (Some (PyStr ''alpine'')) None None)))) =
     [NewClient (PyStr ''unix:///var/run/docker.sock''),
      Invoke (PyStr ''unix:///var/run/docker.sock'') ''images''
        [(''name'', PyStr ''alpine''), (''all'', PyBool True)]]
   \<and> truthy (PyStr ''alpine'')
   \<and> trace (snd (PullImage_run stub None (Some (PyStr ''3.9'')) None
       (fresh (PullImage_init (Some (PyStr ''alpine'')) (Some (PyStr ''3.8'')) None)))) =
     [NewClient (PyStr ''unix:///var/run/docker.sock''),
      Invoke (PyStr ''unix:///var/run/docker.sock'') ''pull''
        [(''repository'', PyStr ''alpine''), (''tag'', PyStr ''3.9'')]]
   \<and> trace (snd (PushImage_run stub (Some (PyStr ''me/alpine'')) None None
       (fresh (PushImage_init (Some (PyStr ''alpine'')) (Some (PyStr ''3.8''))
          (Some (PyStr ''tcp://dockerhost:2375'')))))) =
     [NewClient (PyStr ''tcp://dockerhost:2375''),
      Invoke (PyStr ''tcp://dockerhost:2375'') ''push''
        [(''repository'', PyStr ''me/alpine''), (''tag'', PyStr ''3.8'')]]
   \<and> trace (snd (RemoveImage_run stub None (Some (PyBool True)) (Some (PyStr ''tcp://0.0.0.0:2375''))
       (fresh (RemoveImage_init (Some (PyStr ''alpine'')) None None)))) =
     [NewClient (PyStr ''tcp://0.0.0.0:2375'')]
   \<and> trace (snd (TagImage_run stub None (Some (PyStr ''me/alpine'')) None None None
       (fresh (TagImage_init (Some (PyStr ''alpine'')) None (Some (PyStr ''3.8'')) None None)))) =
     [NewClient (PyStr ''unix:///var/run/docker.sock''),
      Invoke (PyStr ''unix:///var/run/docker.sock'') ''tag''
        [(''image'', PyStr ''alpine''), (''repository'', PyStr ''me/alpine''),
         (''tag'', PyStr ''3.8''), (''force'', PyBool False)]]"
  using C1_effective_values [where d = stub
      and ?n1.0 = None and ?a1.0 = "Some (PyBool True)" and ?u1.0 = None
      and ?s1.0 = "fresh (ListImages_init (Some (PyStr ''alpine'')) None None)"
      and ?cn1.0 = "Some (PyStr ''alpine'')" and ?ca1.0 = None and ?cu1.0 = None
      and ?r2.0 = None and ?t2.0 = "Some (PyStr ''3.9'')" and ?u2.0 = None
      and ?s2.0 = "fresh (PullImage_init (Some (PyStr ''alpine'')) (Some (PyStr ''3.8'')) None)"
      and ?cr2.0 = "Some (PyStr ''alpine'')" and ?ct2.0 = "Some (PyStr ''3.8'')" and ?cu2.0 = None
      and ?r3.0 = "Some (PyStr ''me/alpine'')" and ?t3.0 = None and ?u3.0 = None
      and ?s3.0 = "fresh (PushImage_init (Some (PyStr ''alpine'')) (Some (PyStr ''3.8''))
          (Some (PyStr ''tcp://dockerhost:2375'')))"
      and ?cr3.0 = "Some (PyStr ''alpine'')" and ?ct3.0 = "Some (PyStr ''3.8'')"
      and ?cu3.0 = "Some (PyStr ''tcp://dockerhost:2375'')"
      and ?i4.0 = None and ?f4.0 = "Some (PyBool True)" and ?u4.0 = "Some (PyStr ''tcp://0.0.0.0:2375'')"
      and ?s4.0 = "fresh (RemoveImage_init (Some (PyStr ''alpine'')) None None)"
      and ?ci4.0 = "Some (PyStr ''alpine'')" and ?cf4.0 = None and ?cu4.0 = None
      and ?i5.0 = None and ?r5.0 = "Some (PyStr ''me/alpine'')" and ?t5.0 = None
      and ?f5.0 = None and ?u5.0 = None
      and ?s5.0 = "fresh (TagImage_init (Some (PyStr ''alpine'')) None (Some (PyStr ''3.8'')) None None)"
      and ?ci5.0 = "Some (PyStr ''alpine'')" and ?cr5.0 = None and ?ct5.0 = "Some (PyStr ''3.8'')"
      and ?cf5.0 = None and ?cu5.0 = None]
  by (simp add: stub_def fresh_def init_defs)

text \<open>
  C1 as first stated takes \<open>None\<close> itself for the unset sentinel, so that a call-time \<open>None\<close>
  would fall back to the attribute. It does not: \<open>PullImage(repository="alpine",
  tag="3.8").run(tag=None)\<close> calls \<open>pull\<close> with \<open>tag=None\<close>, not with \<open>tag="3.8"\<close>.
\<close>

theorem C1_explicit_none_counterexample:
  "trace (snd (PullImage_run stub None (Some PyNone) None
       (fresh (PullImage_init (Some (PyStr ''alpine'')) (Some (PyStr ''3.8'')) None)))) =
     [NewClient (PyStr ''unix:///var/run/docker.sock''),
      Invoke (PyStr ''unix:///var/run/docker.sock'') ''pull''
        [(''repository'', PyStr ''alpine''), (''tag'', PyNone)]]
   \<and> trace (snd (PullImage_run stub None (Some PyNone) None
       (fresh (PullImage_init (Some (PyStr ''alpine'')) (Some (PyStr ''3.8'')) None)))) \<noteq>
     [NewClient (PyStr ''unix:///var/run/docker.sock''),
      Invoke (PyStr ''unix:///var/run/docker.sock'') ''pull''
        [(''repository'', PyStr ''alpine''), (''tag'', PyStr ''3.8'')]]"
  by (simp add: PullImage_run_def PullImage_body_def prog_defs defaults_from_attrs_def
      stub_def fresh_def init_defs)

text \<open>
  C2: \<open>PullImage\<close> and \<open>PushImage\<close> with \<open>repository\<close>, and \<open>RemoveImage\<close> with \<open>image\<close>,
  unset both at construction (the attribute is \<open>None\<close>) and at call time (the argument is
  left out, or is \<open>None\<close>) raise \<open>ValueError\<close>; the state is the one before the call, so
  no client was built and no method was called.
\<close>

theorem C2_unset_required_raises:
  "(PullImage.self_repository (self s2) = PyNone \<and> (r2 = None \<or> r2 = Some PyNone) \<longrightarrow>
      PullImage_run d r2 t2 u2 s2 =
        (Inl (ValueError ''A repository to pull the image from must be specified.''), s2))
   \<and> (PushImage.self_repository (self s3) = PyNone \<and> (r3 = None \<or> r3 = Some PyNone) \<longrightarrow>
      PushImage_run d r3 t3 u3 s3 =
        (Inl (ValueError ''A repository to push the image to must be specified.''), s3))
   \<and> (RemoveImage.self_image (self s4) = PyNone \<and> (i4 = None \<or> i4 = Some PyNone) \<longrightarrow>
      RemoveImage_run d i4 f4 u4 s4 =
        (Inl (ValueError ''The name of an image to remove must be provided.''), s4))"
  by (intro conjI impI; elim conjE disjE;
      simp add: run_invalid defaults_from_attrs_unset defaults_from_attrs_set)

theorem C2_unset_required_raises_witness:
  "PullImage.self_repository (self (fresh (PullImage_init None None None))) = PyNone
   \<and> PullImage_run stub None (Some (PyStr ''3.9'')) None (fresh (PullImage_init None None None)) =
       (Inl (ValueError ''A repository to pull the image from must be specified.''),
        fresh (PullImage_init None None None))
   \<and> PushImage.self_repository (self (fresh (PushImage_init None None None))) = PyNone
   \<and> PushImage_run stub None (Some (PyStr ''3.9'')) None (fresh (PushImage_init None None None)) =
       (Inl (ValueError ''A repository to push the image to must be specified.''),
        fresh (PushImage_init None None None))
   \<and> RemoveImage.self_image (self (fresh (RemoveImage_init None None None))) = PyNone
   \<and> RemoveImage_run stub None (Some (PyBool True)) None (fresh (RemoveImage_init None None None)) =
       (Inl (ValueError ''The name of an image to remove must be provided.''),
        fresh (RemoveImage_init None None None))
   \<and> trace (fresh (RemoveImage_init None None None)) = []"
  using C2_unset_required_raises [where d = stub and ?r2.0 = None and ?r3.0 = None
      and ?i4.0 = None
      and ?s2.0 = "fresh (PullImage_init None None None)" and ?t2.0 = "Some (PyStr ''3.9'')"
      and ?u2.0 = None
      and ?s3.0 = "fresh (PushImage_init None None None)" and ?t3.0 = "Some (PyStr ''3.9'')"
      and ?u3.0 = None
      and ?s4.0 = "fresh (RemoveImage_init None None None)" and ?f4.0 = "Some (PyBool True)"
      and ?u4.0 = None]
  by (simp add: fresh_def init_defs)

text \<open>
  C3: when, after resolution, the image or the repository of \<open>TagImage\<close> is \<open>None\<close>, the run
  raises \<open>ValueError\<close> and leaves the state as it was: no client built, no method called.
\<close>

theorem C3_tag_requires_both:
  assumes unset: "defaults_from_attrs i (TagImage.self_image (self s)) = PyNone \<or>
      defaults_from_attrs r (TagImage.self_repository (self s)) = PyNone"
  shows "TagImage_run d i r t f u s =
     (Inl (ValueError ''Both image and repository must be provided.''), s)"
proof -
  from unset
  have "\<not> truthy (defaults_from_attrs i (TagImage.self_image (self s))) \<or>
      \<not> truthy (defaults_from_attrs r (TagImage.self_repository (self s)))"
  proof
    assume "defaults_from_attrs i (TagImage.self_image (self s)) = PyNone"
    then show ?thesis by simp
  next
    assume "defaults_from_attrs r (TagImage.self_repository (self s)) = PyNone"
    then show ?thesis by simp
  qed
  then show ?thesis by (rule TagImage_run_invalid)
qed

theorem C3_tag_requires_both_witness:
  "defaults_from_attrs None (TagImage.self_repository
      (self (fresh (TagImage_init (Some (PyStr ''alpine'')) None None None None)))) = PyNone
   \<and> TagImage_run stub None None (Some (PyStr ''3.9'')) None None
       (fresh (TagImage_init (Some (PyStr ''alpine'')) None None None None)) =
     (Inl (ValueError ''Both image and repository must be provided.''),
      fresh (TagImage_init (Some (PyStr ''alpine'')) None None None None))
   \<and> defaults_from_attrs None (TagImage.self_image
      (self (fresh (TagImage_init None None None None None)))) = PyNone
   \<and> TagImage_run stub None (Some (PyStr ''me/alpine'')) None None None
       (fresh (TagImage_init None None None None None)) =
     (Inl (ValueError ''Both image and repository must be provided.''),
      fresh (TagImage_init None None None None None))"
  using C3_tag_requires_both [where d = stub and i = None and r = None
      and t = "Some (PyStr ''3.9'')" and f = None and u = None
      and s = "fresh (TagImage_init (Some (PyStr ''alpine'')) None None None None)"]
    C3_tag_requires_both [where d = stub and i = None and r = "Some (PyStr ''me/alpine'')"
      and t = None and f = None and u = None
      and s = "fresh (TagImage_init None None None None None)"]
  by (simp add: fresh_def init_defs defaults_from_attrs_def)

text \<open>
  C4: a task constructed without \<open>docker_server_url\<close> and run without it builds its client
  against \<open>unix:///var/run/docker.sock\<close>. A run that fails validation builds no client.
\<close>

theorem C4_default_endpoint:
  "(self s1 = ListImages_init cn1 ca1 None \<longrightarrow>
      new_clients (events_of (ListImages_run d n1 a1 None) s1) =
        [PyStr ''unix:///var/run/docker.sock''])
   \<and> (self s2 = PullImage_init cr2 ct2 None \<longrightarrow>
      new_clients (events_of (PullImage_run d r2 t2 None) s2) =
        (if truthy (defaults_from_attrs r2 (PullImage.self_repository (self s2)))
         then [PyStr ''unix:///var/run/docker.sock''] else []))
   \<and> (self s3 = PushImage_init cr3 ct3 None \<longrightarrow>
      new_clients (events_of (PushImage_run d r3 t3 None) s3) =
        (if truthy (defaults_from_attrs r3 (PushImage.self_repository (self s3)))
         then [PyStr ''unix:///var/run/docker.sock''] else []))
   \<and> (self s4 = RemoveImage_init ci4 cf4 None \<longrightarrow>
      new_clients (events_of (RemoveImage_run d i4 f4 None) s4) =
        (if truthy (defaults_from_attrs i4 (RemoveImage.self_image (self s4)))
         then [PyStr ''unix:///var/run/docker.sock''] else []))
   \<and> (self s5 = TagImage_init ci5 cr5 ct5 cf5 None \<longrightarrow>
      new_clients (events_of (TagImage_run d i5 r5 t5 f5 None) s5) =
        (if truthy (defaults_from_attrs i5 (TagImage.self_image (self s5))) \<and>
            truthy (defaults_from_attrs r5 (TagImage.self_repository (self s5)))
         then [PyStr ''unix:///var/run/docker.sock''] else []))"
  by (intro conjI impI; simp add: run_new_clients defaults_from_attrs_unset init_defs)

theorem C4_default_endpoint_witness:
  "new_clients (events_of (ListImages_run stub None None None)
      (fresh (ListImages_init None None None))) = [PyStr ''unix:///var/run/docker.sock'']
   \<and> new_clients (events_of (PullImage_run stub (Some (PyStr ''alpine'')) None None)
      (fresh (PullImage_init None None None))) = [PyStr ''unix:///var/run/docker.sock'']
   \<and> new_clients (events_of (PushImage_run stub None None None)
      (fresh (PushImage_init (Some (PyStr ''alpine'')) None None))) =
        [PyStr ''unix:///var/run/docker.sock'']
   \<and> new_clients (events_of (RemoveImage_run stub (Some (PyStr ''alpine'')) None None)
      (fresh (RemoveImage_init None (Some (PyBool True)) None))) =
        [PyStr ''unix:///var/run/docker.sock'']
   \<and> new_clients (events_of (TagImage_run stub None (Some (PyStr ''me/alpine'')) None None None)
      (fresh (TagImage_init (Some (PyStr ''alpine'')) None None None None))) =
        [PyStr ''unix:///var/run/docker.sock'']"
  using C4_default_endpoint [where d = stub
      and ?s1.0 = "fresh (ListImages_init None None None)"
      and ?cn1.0 = None and ?ca1.0 = None and ?n1.0 = None and ?a1.0 = None
      and ?s2.0 = "fresh (PullImage_init None None None)"
      and ?cr2.0 = None and ?ct2.0 = None and ?r2.0 = "Some (PyStr ''alpine'')" and ?t2.0 = None
      and ?s3.0 = "fresh (PushImage_init (Some (PyStr ''alpine'')) None None)"
      and ?cr3.0 = "Some (PyStr ''alpine'')" and ?ct3.0 = None and ?r3.0 = None
      and ?t3.0 = None
      and ?s4.0 = "fresh (RemoveImage_init None (Some (PyBool True)) None)"
      and ?ci4.0 = None and ?cf4.0 = "Some (PyBool True)" and ?i4.0 = "Some (PyStr ''alpine'')"
      and ?f4.0 = None
      and ?s5.0 = "fresh (TagImage_init (Some (PyStr ''alpine'')) None None None None)"
      and ?ci5.0 = "Some (PyStr ''alpine'')" and ?cr5.0 = None and ?ct5.0 = None
      and ?cf5.0 = None and ?i5.0 = None and ?r5.0 = "Some (PyStr ''me/alpine'')"
      and ?t5.0 = None and ?f5.0 = None]
  by (simp add: fresh_def init_defs defaults_from_attrs_def)

text \<open>
  C5: \<open>ListImages\<close> constructed and run without filters calls \<open>images\<close> once, with
  \<open>name=None\<close> and \<open>all=False\<close>, and returns the value the client returned, whatever it is.
\<close>

theorem C5_list_passthrough:
  "self s = ListImages_init None None cu \<Longrightarrow>
   APIClient d (defaults_from_attrs u (ListImages.self_docker_server_url (self s))) (daemon s) =
     (Inr c, w) \<Longrightarrow>
   client_call d c ''images'' [(''name'', PyNone), (''all'', PyBool False)] w = (Inr images, w') \<Longrightarrow>
   ListImages_run d None None u s =
     (Inr images,
      s\<lparr>daemon := w',
        trace := trace s @
          [NewClient (defaults_from_attrs u (ListImages.self_docker_server_url (self s))),
           Invoke c ''images'' [(''name'', PyNone), (''all'', PyBool False)]]\<rparr>)"
  by (simp add: ListImages_run_def ListImages_body_eq delegate_returns
      defaults_from_attrs_unset init_defs)

theorem C5_list_passthrough_witness:
  "self (fresh (ListImages_init None None None)) = ListImages_init None None None
   \<and> APIClient stub (PyStr ''unix:///var/run/docker.sock'') 0 =
       (Inr (PyStr ''unix:///var/run/docker.sock''), 1)
   \<and> client_call stub (PyStr ''unix:///var/run/docker.sock'') ''images''
       [(''name'', PyNone), (''all'', PyBool False)] 1 = (Inr image_records, 2)
   \<and> ListImages_run stub None None None (fresh (ListImages_init None None None)) =
       (Inr image_records,
        \<lparr>self = ListImages_init None None None, daemon = 2,
         trace = [NewClient (PyStr ''unix:///var/run/docker.sock''),
                  Invoke (PyStr ''unix:///var/run/docker.sock'') ''images''
                    [(''name'', PyNone), (''all'', PyBool False)]]\<rparr>)"
  using C5_list_passthrough [where d = stub and u = None
      and s = "fresh (ListImages_init None None None)" and cu = None
      and c = "PyStr ''unix:///var/run/docker.sock''" and w = 1 and w' = 2
      and images = image_records]
  by (simp add: stub_def fresh_def init_defs defaults_from_attrs_def)

text \<open>
  C6: when validation passes and the client is built, the outcome of \<open>TagImage.run\<close> is
  the outcome of the client's \<open>tag\<close> call: the value it returns is returned as it is.
\<close>

theorem C6_tag_returns_collaborator_result:
  assumes image_given: "truthy (defaults_from_attrs i (TagImage.self_image (self s)))"
    and repository_given: "truthy (defaults_from_attrs r (TagImage.self_repository (self s)))"
    and built: "APIClient d (defaults_from_attrs u (TagImage.self_docker_server_url (self s)))
      (daemon s) = (Inr c, w)"
  shows "fst (TagImage_run d i r t f u s) =
     fst (client_call d c ''tag''
       [(''image'', defaults_from_attrs i (TagImage.self_image (self s))),
        (''repository'', defaults_from_attrs r (TagImage.self_repository (self s))),
        (''tag'', defaults_from_attrs t (TagImage.self_tag (self s))),
        (''force'', defaults_from_attrs f (TagImage.self_force (self s)))] w)"
proof -
  have "fst (TagImage_run d i r t f u s) =
     (case APIClient d (defaults_from_attrs u (TagImage.self_docker_server_url (self s)))
             (daemon s) of
        (Inl e, w) \<Rightarrow> Inl e
      | (Inr c, w) \<Rightarrow> fst (client_call d c ''tag''
          [(''image'', defaults_from_attrs i (TagImage.self_image (self s))),
           (''repository'', defaults_from_attrs r (TagImage.self_repository (self s))),
           (''tag'', defaults_from_attrs t (TagImage.self_tag (self s))),
           (''force'', defaults_from_attrs f (TagImage.self_force (self s)))] w))"
    using image_given repository_given by (rule TagImage_run_fst)
  with built show ?thesis by simp
qed

theorem C6_tag_returns_collaborator_result_witness:
  "truthy (PyStr ''alpine'') \<and> truthy (PyStr ''me/alpine'')
   \<and> fst (client_call stub (PyStr ''unix:///var/run/docker.sock'') ''tag''
       [(''image'', PyStr ''alpine''), (''repository'', PyStr ''me/alpine''),
        (''tag'', PyStr ''3.9''), (''force'', PyBool False)] 1) = Inr (PyBool True)
   \<and> fst (TagImage_run stub None (Some (PyStr ''me/alpine'')) (Some (PyStr ''3.9'')) None None
       (fresh (TagImage_init (Some (PyStr ''alpine'')) None None None None))) =
     Inr (PyBool True)"
  using C6_tag_returns_collaborator_result [where d = stub and i = None
      and r = "Some (PyStr ''me/alpine'')" and t = "Some (PyStr ''3.9'')" and f = None and u = None
      and s = "fresh (TagImage_init (Some (PyStr ''alpine'')) None None None None)"
      and c = "PyStr ''unix:///var/run/docker.sock''" and w = 1]
  by (simp add: stub_def fresh_def init_defs defaults_from_attrs_def)

text \<open>
  C7: when validation passes and the client is built, \<open>RemoveImage.run\<close> returns \<open>None\<close>
  whatever the client's \<open>remove\<close> call returns, and raises only what that call raises.
\<close>

theorem C7_remove_returns_none:
  assumes image_given: "truthy (defaults_from_attrs i (RemoveImage.self_image (self s)))"
    and built: "APIClient d (defaults_from_attrs u (RemoveImage.self_docker_server_url (self s)))
      (daemon s) = (Inr c, w)"
  shows "fst (RemoveImage_run d i f u s) =
     (case fst (client_call d c ''remove''
        [(''image'', defaults_from_attrs i (RemoveImage.self_image (self s))),
         (''force'', defaults_from_attrs f (RemoveImage.self_force (self s)))] w) of
        Inl e \<Rightarrow> Inl e
      | Inr v \<Rightarrow> Inr PyNone)"
proof (cases "fst (client_call d c ''remove''
        [(''image'', defaults_from_attrs i (RemoveImage.self_image (self s))),
         (''force'', defaults_from_attrs f (RemoveImage.self_force (self s)))] w)")
  case (Inl e)
  with built show ?thesis
    by (simp add: RemoveImage_run_fst [OF image_given])
next
  case (Inr v)
  with built show ?thesis
    by (simp add: RemoveImage_run_fst [OF image_given])
qed

theorem C7_remove_returns_none_witness:
  "truthy (PyStr ''alpine'')
   \<and> fst (client_call stub (PyStr ''unix:///var/run/docker.sock'') ''remove''
       [(''image'', PyStr ''alpine''), (''force'', PyBool True)] 1) = Inr (PyBool True)
   \<and> fst (RemoveImage_run stub None (Some (PyBool True)) None
       (fresh (RemoveImage_init (Some (PyStr ''alpine'')) None None))) = Inr PyNone"
  using C7_remove_returns_none [where d = stub and i = None and f = "Some (PyBool True)"
      and u = None and s = "fresh (RemoveImage_init (Some (PyStr ''alpine'')) None None)"
      and c = "PyStr ''unix:///var/run/docker.sock''" and w = 1]
  by (simp add: stub_def fresh_def init_defs defaults_from_attrs_def)


text \<open>
  C8: in each of the five tasks, once validation has passed, the outcome of the run is the
  outcome of the collaborator: the exception of the constructor call when that raises, and
  otherwise the outcome of the one method call, so an exception of the client reaches the
  caller as it was raised. Every run makes at most one method call.
\<close>

theorem C8_errors_propagate:
  "fst (ListImages_run d n1 a1 u1 s1) =
     (case APIClient d (defaults_from_attrs u1 (ListImages.self_docker_server_url (self s1)))
             (daemon s1) of
        (Inl e, w) \<Rightarrow> Inl e
      | (Inr c, w) \<Rightarrow> fst (client_call d c ''images''
          [(''name'', defaults_from_attrs n1 (ListImages.self_repository_name (self s1))),
           (''all'', defaults_from_attrs a1 (ListImages.self_all_layers (self s1)))] w))
   \<and> (truthy (defaults_from_attrs r2 (PullImage.self_repository (self s2))) \<longrightarrow>
      fst (PullImage_run d r2 t2 u2 s2) =
        (case APIClient d (defaults_from_attrs u2 (PullImage.self_docker_server_url (self s2)))
                (daemon s2) of
           (Inl e, w) \<Rightarrow> Inl e
         | (Inr c, w) \<Rightarrow> fst (client_call d c ''pull''
             [(''repository'', defaults_from_attrs r2 (PullImage.self_repository (self s2))),
              (''tag'', defaults_from_attrs t2 (PullImage.self_tag (self s2)))] w)))
   \<and> (truthy (defaults_from_attrs r3 (PushImage.self_repository (self s3))) \<longrightarrow>
      fst (PushImage_run d r3 t3 u3 s3) =
        (case APIClient d (defaults_from_attrs u3 (PushImage.self_docker_server_url (self s3)))
                (daemon s3) of
           (Inl e, w) \<Rightarrow> Inl e
         | (Inr c, w) \<Rightarrow> fst (client_call d c ''push''
             [(''repository'', defaults_from_attrs r3 (PushImage.self_repository (self s3))),
              (''tag'', defaults_from_attrs t3 (PushImage.self_tag (self s3)))] w)))
   \<and> (truthy (defaults_from_attrs i4 (RemoveImage.self_image (self s4))) \<longrightarrow>
      fst (RemoveImage_run d i4 f4 u4 s4) =
        (case APIClient d (defaults_from_attrs u4 (RemoveImage.self_docker_server_url (self s4)))
                (daemon s4) of
           (Inl e, w) \<Rightarrow> Inl e
         | (Inr c, w) \<Rightarrow>
             (case fst (client_call d c ''remove''
                [(''image'', defaults_from_attrs i4 (RemoveImage.self_image (self s4))),
                 (''force'', defaults_from_attrs f4 (RemoveImage.self_force (self s4)))] w) of
                Inl e \<Rightarrow> Inl e
              | Inr v \<Rightarrow> Inr PyNone)))
   \<and> (truthy (defaults_from_attrs i5 (TagImage.self_image (self s5))) \<and>
      truthy (defaults_from_attrs r5 (TagImage.self_repository (self s5))) \<longrightarrow>
      fst (TagImage_run d i5 r5 t5 f5 u5 s5) =
        (case APIClient d (defaults_from_attrs u5 (TagImage.self_docker_server_url (self s5)))
                (daemon s5) of
           (Inl e, w) \<Rightarrow> Inl e
         | (Inr c, w) \<Rightarrow> fst (client_call d c ''tag''
             [(''image'', defaults_from_attrs i5 (TagImage.self_image (self s5))),
              (''repository'', defaults_from_attrs r5 (TagImage.self_repository (self s5))),
              (''tag'', defaults_from_attrs t5 (TagImage.self_tag (self s5))),
              (''force'', defaults_from_attrs f5 (TagImage.self_force (self s5)))] w)))
   \<and> length (invocations (events_of (ListImages_run d n1 a1 u1) s1)) \<le> 1
   \<and> length (invocations (events_of (PullImage_run d r2 t2 u2) s2)) \<le> 1
   \<and> length (invocations (events_of (PushImage_run d r3 t3 u3) s3)) \<le> 1
   \<and> length (invocations (events_of (RemoveImage_run d i4 f4 u4) s4)) \<le> 1
   \<and> length (invocations (events_of (TagImage_run d i5 r5 t5 f5 u5) s5)) \<le> 1"
  by (intro conjI impI; (elim conjE)?; simp only: run_fst run_invocations)

theorem C8_errors_propagate_witness:
  "fst (ListImages_run stub None None (Some (PyStr ''tcp://0.0.0.0:2375''))
       (fresh (ListImages_init None None None))) = Inl (OtherError ''connection refused'')
   \<and> fst (PullImage_run stub (Some (PyStr ''alpine'')) None (Some (PyStr ''tcp://0.0.0.0:2375''))
       (fresh (PullImage_init None None None))) = Inl (OtherError ''connection refused'')
   \<and> fst (PushImage_run stub (Some (PyStr ''alpine'')) None (Some (PyStr ''tcp://0.0.0.0:2375''))
       (fresh (PushImage_init None None None))) = Inl (OtherError ''connection refused'')
   \<and> fst (RemoveImage_run stub (Some (PyStr ''alpine'')) None (Some (PyStr ''tcp://0.0.0.0:2375''))
       (fresh (RemoveImage_init None None None))) = Inl (OtherError ''connection refused'')
   \<and> fst (TagImage_run stub (Some (PyStr ''alpine'')) (Some (PyStr ''me/alpine'')) None None
       (Some (PyStr ''tcp://0.0.0.0:2375''))
       (fresh (TagImage_init None None None None None))) = Inl (OtherError ''connection refused'')
   \<and> fst (ListImages_run stub None None None
       (fresh (ListImages_init None None (Some (PyStr ''tcp://10.0.0.1:2375''))))) =
         Inl (OtherError ''daemon error'')
   \<and> fst (PullImage_run stub None None None
       (fresh (PullImage_init (Some (PyStr ''alpine'')) None
          (Some (PyStr ''tcp://10.0.0.1:2375''))))) = Inl (OtherError ''daemon error'')
   \<and> fst (PushImage_run stub None None None
       (fresh (PushImage_init (Some (PyStr ''alpine'')) None
          (Some (PyStr ''tcp://10.0.0.1:2375''))))) = Inl (OtherError ''daemon error'')
   \<and> fst (RemoveImage_run stub None None None
       (fresh (RemoveImage_init (Some (PyStr ''alpine'')) None
          (Some (PyStr ''tcp://10.0.0.1:2375''))))) = Inl (OtherError ''daemon error'')
   \<and> fst (TagImage_run stub None None None None None
       (fresh (TagImage_init (Some (PyStr ''alpine'')) (Some (PyStr ''me/alpine'')) None None
          (Some (PyStr ''tcp://10.0.0.1:2375''))))) = Inl (OtherError ''daemon error'')
   \<and> length (invocations (events_of (PullImage_run stub None None None)
       (fresh (PullImage_init (Some (PyStr ''alpine'')) None
          (Some (PyStr ''tcp://10.0.0.1:2375'')))))) \<le> 1"
  using C8_errors_propagate [where d = stub
      and ?n1.0 = None and ?a1.0 = None and ?u1.0 = "Some (PyStr ''tcp://0.0.0.0:2375'')"
      and ?s1.0 = "fresh (ListImages_init None None None)"
      and ?r2.0 = "Some (PyStr ''alpine'')" and ?t2.0 = None and ?u2.0 = "Some (PyStr ''tcp://0.0.0.0:2375'')"
      and ?s2.0 = "fresh (PullImage_init None None None)"
      and ?r3.0 = "Some (PyStr ''alpine'')" and ?t3.0 = None and ?u3.0 = "Some (PyStr ''tcp://0.0.0.0:2375'')"
      and ?s3.0 = "fresh (PushImage_init None None None)"
      and ?i4.0 = "Some (PyStr ''alpine'')" and ?f4.0 = None and ?u4.0 = "Some (PyStr ''tcp://0.0.0.0:2375'')"
      and ?s4.0 = "fresh (RemoveImage_init None None None)"
      and ?i5.0 = "Some (PyStr ''alpine'')" and ?r5.0 = "Some (PyStr ''me/alpine'')" and ?t5.0 = None
      and ?f5.0 = None and ?u5.0 = "Some (PyStr ''tcp://0.0.0.0:2375'')"
      and ?s5.0 = "fresh (TagImage_init None None None None None)"]
    C8_errors_propagate [where d = stub
      and ?n1.0 = None and ?a1.0 = None and ?u1.0 = None
      and ?s1.0 = "fresh (ListImages_init None None (Some (PyStr ''tcp://10.0.0.1:2375'')))"
      and ?r2.0 = None and ?t2.0 = None and ?u2.0 = None
      and ?s2.0 = "fresh (PullImage_init (Some (PyStr ''alpine'')) None
          (Some (PyStr ''tcp://10.0.0.1:2375'')))"
      and ?r3.0 = None and ?t3.0 = None and ?u3.0 = None
      and ?s3.0 = "fresh (PushImage_init (Some (PyStr ''alpine'')) None
          (Some (PyStr ''tcp://10.0.0.1:2375'')))"
      and ?i4.0 = None and ?f4.0 = None and ?u4.0 = None
      and ?s4.0 = "fresh (RemoveImage_init (Some (PyStr ''alpine'')) None
          (Some (PyStr ''tcp://10.0.0.1:2375'')))"
      and ?i5.0 = None and ?r5.0 = None and ?t5.0 = None
      and ?f5.0 = None and ?u5.0 = None
      and ?s5.0 = "fresh (TagImage_init (Some (PyStr ''alpine'')) (Some (PyStr ''me/alpine''))
          None None (Some (PyStr ''tcp://10.0.0.1:2375'')))"]
  by (simp add: stub_def fresh_def init_defs defaults_from_attrs_def)

text \<open>
  C9: no run changes the task object: after every run, returning or raising, the
  attributes are the ones before it. A second run on the same object therefore resolves its
  arguments against the attributes as they were before the first run, whatever the
  arguments of the first run were.
\<close>

theorem C9_attributes_unchanged:
  "self (snd (ListImages_run d n1 a1 u1 s1)) = self s1
   \<and> self (snd (PullImage_run d r2 t2 u2 s2)) = self s2
   \<and> self (snd (PushImage_run d r3 t3 u3 s3)) = self s3
   \<and> self (snd (RemoveImage_run d i4 f4 u4 s4)) = self s4
   \<and> self (snd (TagImage_run d i5 r5 t5 f5 u5 s5)) = self s5
   \<and> ListImages_run d n1' a1' u1' (snd (ListImages_run d n1 a1 u1 s1)) =
       ListImages_body d
         (defaults_from_attrs n1' (ListImages.self_repository_name (self s1)))
         (defaults_from_attrs a1' (ListImages.self_all_layers (self s1)))
         (defaults_from_attrs u1' (ListImages.self_docker_server_url (self s1)))
         (snd (ListImages_run d n1 a1 u1 s1))
   \<and> PullImage_run d r2' t2' u2' (snd (PullImage_run d r2 t2 u2 s2)) =
       PullImage_body d
         (defaults_from_attrs r2' (PullImage.self_repository (self s2)))
         (defaults_from_attrs t2' (PullImage.self_tag (self s2)))
         (defaults_from_attrs u2' (PullImage.self_docker_server_url (self s2)))
         (snd (PullImage_run d r2 t2 u2 s2))
   \<and> PushImage_run d r3' t3' u3' (snd (PushImage_run d r3 t3 u3 s3)) =
       PushImage_body d
         (defaults_from_attrs r3' (PushImage.self_repository (self s3)))
         (defaults_from_attrs t3' (PushImage.self_tag (self s3)))
         (defaults_from_attrs u3' (PushImage.self_docker_server_url (self s3)))
         (snd (PushImage_run d r3 t3 u3 s3))
   \<and> RemoveImage_run d i4' f4' u4' (snd (RemoveImage_run d i4 f4 u4 s4)) =
       RemoveImage_body d
         (defaults_from_attrs i4' (RemoveImage.self_image (self s4)))
         (defaults_from_attrs f4' (RemoveImage.self_force (self s4)))
         (defaults_from_attrs u4' (RemoveImage.self_docker_server_url (self s4)))
         (snd (RemoveImage_run d i4 f4 u4 s4))
   \<and> TagImage_run d i5' r5' t5' f5' u5' (snd (TagImage_run d i5 r5 t5 f5 u5 s5)) =
       TagImage_body d
         (defaults_from_attrs i5' (TagImage.self_image (self s5)))
         (defaults_from_attrs r5' (TagImage.self_repository (self s5)))
         (defaults_from_attrs t5' (TagImage.self_tag (self s5)))
         (defaults_from_attrs f5' (TagImage.self_force (self s5)))
         (defaults_from_attrs u5' (TagImage.self_docker_server_url (self s5)))
         (snd (TagImage_run d i5 r5 t5 f5 u5 s5))"
proof (intro conjI)
  show "ListImages_run d n1' a1' u1' (snd (ListImages_run d n1 a1 u1 s1)) =
       ListImages_body d
         (defaults_from_attrs n1' (ListImages.self_repository_name (self s1)))
         (defaults_from_attrs a1' (ListImages.self_all_layers (self s1)))
         (defaults_from_attrs u1' (ListImages.self_docker_server_url (self s1)))
         (snd (ListImages_run d n1 a1 u1 s1))"
    by (subst ListImages_run_def) (simp only: ListImages_run_self)
  show "PullImage_run d r2' t2' u2' (snd (PullImage_run d r2 t2 u2 s2)) =
       PullImage_body d
         (defaults_from_attrs r2' (PullImage.self_repository (self s2)))
         (defaults_from_attrs t2' (PullImage.self_tag (self s2)))
         (defaults_from_attrs u2' (PullImage.self_docker_server_url (self s2)))
         (snd (PullImage_run d r2 t2 u2 s2))"
    by (subst PullImage_run_def) (simp only: PullImage_run_self)
  show "PushImage_run d r3' t3' u3' (snd (PushImage_run d r3 t3 u3 s3)) =
       PushImage_body d
         (defaults_from_attrs r3' (PushImage.self_repository (self s3)))
         (defaults_from_attrs t3' (PushImage.self_tag (self s3)))
         (defaults_from_attrs u3' (PushImage.self_docker_server_url (self s3)))
         (snd (PushImage_run d r3 t3 u3 s3))"
    by (subst PushImage_run_def) (simp only: PushImage_run_self)
  show "RemoveImage_run d i4' f4' u4' (snd (RemoveImage_run d i4 f4 u4 s4)) =
       RemoveImage_body d
         (defaults_from_attrs i4' (RemoveImage.self_image (self s4)))
         (defaults_from_attrs f4' (RemoveImage.self_force (self s4)))
         (defaults_from_attrs u4' (RemoveImage.self_docker_server_url (self s4)))
         (snd (RemoveImage_run d i4 f4 u4 s4))"
    by (subst RemoveImage_run_def) (simp only: RemoveImage_run_self)
  show "TagImage_run d i5' r5' t5' f5' u5' (snd (TagImage_run d i5 r5 t5 f5 u5 s5)) =
       TagImage_body d
         (defaults_from_attrs i5' (TagImage.self_image (self s5)))
         (defaults_from_attrs r5' (TagImage.self_repository (self s5)))
         (defaults_from_attrs t5' (TagImage.self_tag (self s5)))
         (defaults_from_attrs f5' (TagImage.self_force (self s5)))
         (defaults_from_attrs u5' (TagImage.self_docker_server_url (self s5)))
         (snd (TagImage_run d i5 r5 t5 f5 u5 s5))"
    by (subst TagImage_run_def) (simp only: TagImage_run_self)
qed (simp_all only: run_self)


theorem C9_attributes_unchanged_witness:
  "self (snd (ListImages_run stub (Some (PyStr ''busybox'')) (Some (PyBool True)) None
       (fresh (ListImages_init None None None)))) = ListImages_init None None None
   \<and> self (snd (PullImage_run stub (Some (PyStr ''busybox'')) (Some (PyStr ''1.0'')) None
       (fresh (PullImage_init (Some (PyStr ''alpine'')) None None)))) =
         PullImage_init (Some (PyStr ''alpine'')) None None
   \<and> self (snd (PushImage_run stub None None None
       (fresh (PushImage_init None None None)))) = PushImage_init None None None
   \<and> self (snd (RemoveImage_run stub (Some (PyStr ''busybox'')) (Some (PyBool True)) None
       (fresh (RemoveImage_init (Some (PyStr ''alpine'')) None None)))) =
         RemoveImage_init (Some (PyStr ''alpine'')) None None
   \<and> self (snd (TagImage_run stub (Some (PyStr ''busybox'')) (Some (PyStr ''me/busybox'')) None None
       (Some (PyStr ''tcp://0.0.0.0:2375''))
       (fresh (TagImage_init (Some (PyStr ''alpine'')) None None None None)))) =
         TagImage_init (Some (PyStr ''alpine'')) None None None None
   \<and> PullImage_run stub None None None
       (snd (PullImage_run stub (Some (PyStr ''busybox'')) (Some (PyStr ''1.0'')) None
          (fresh (PullImage_init (Some (PyStr ''alpine'')) None None)))) =
       PullImage_body stub (PyStr ''alpine'') PyNone (PyStr ''unix:///var/run/docker.sock'')
         (snd (PullImage_run stub (Some (PyStr ''busybox'')) (Some (PyStr ''1.0'')) None
            (fresh (PullImage_init (Some (PyStr ''alpine'')) None None))))"
  using C9_attributes_unchanged [where d = stub
      and ?n1.0 = "Some (PyStr ''busybox'')" and ?a1.0 = "Some (PyBool True)" and ?u1.0 = None
      and ?s1.0 = "fresh (ListImages_init None None None)"
      and ?r2.0 = "Some (PyStr ''busybox'')" and ?t2.0 = "Some (PyStr ''1.0'')" and ?u2.0 = None
      and ?s2.0 = "fresh (PullImage_init (Some (PyStr ''alpine'')) None None)"
      and ?r2' = None and ?t2' = None and ?u2' = None
      and ?r3.0 = None and ?t3.0 = None and ?u3.0 = None
      and ?s3.0 = "fresh (PushImage_init None None None)"
      and ?i4.0 = "Some (PyStr ''busybox'')" and ?f4.0 = "Some (PyBool True)" and ?u4.0 = None
      and ?s4.0 = "fresh (RemoveImage_init (Some (PyStr ''alpine'')) None None)"
      and ?i5.0 = "Some (PyStr ''busybox'')" and ?r5.0 = "Some (PyStr ''me/busybox'')" and ?t5.0 = None
      and ?f5.0 = None and ?u5.0 = "Some (PyStr ''tcp://0.0.0.0:2375'')"
      and ?s5.0 = "fresh (TagImage_init (Some (PyStr ''alpine'')) None None None None)"]
  by (simp add: fresh_def init_defs defaults_from_attrs_def)

text \<open>
  C10: the empty string is not the unset sentinel, so as a call-time argument it replaces
  the attribute, whatever that is, and then fails validation: each required argument given as
  \<open>""\<close> makes the run raise \<open>ValueError\<close> with the state left as it was.
\<close>

theorem C10_empty_string_overrides:
  "PullImage_run d (Some (PyStr '''')) t2 u2 s2 =
     (Inl (ValueError ''A repository to pull the image from must be specified.''), s2)
   \<and> PushImage_run d (Some (PyStr '''')) t3 u3 s3 =
     (Inl (ValueError ''A repository to push the image to must be specified.''), s3)
   \<and> RemoveImage_run d (Some (PyStr '''')) f4 u4 s4 =
     (Inl (ValueError ''The name of an image to remove must be provided.''), s4)
   \<and> TagImage_run d (Some (PyStr '''')) r5 t5 f5 u5 s5 =
     (Inl (ValueError ''Both image and repository must be provided.''), s5)
   \<and> TagImage_run d i6 (Some (PyStr '''')) t6 f6 u6 s6 =
     (Inl (ValueError ''Both image and repository must be provided.''), s6)"
  by (intro conjI; simp add: run_invalid defaults_from_attrs_set)

theorem C10_empty_string_overrides_witness:
  "truthy (PullImage.self_repository (self (fresh (PullImage_init (Some (PyStr ''alpine'')) None None))))
   \<and> PullImage_run stub (Some (PyStr '''')) None None
       (fresh (PullImage_init (Some (PyStr ''alpine'')) None None)) =
     (Inl (ValueError ''A repository to pull the image from must be specified.''),
      fresh (PullImage_init (Some (PyStr ''alpine'')) None None))
   \<and> PushImage_run stub (Some (PyStr '''')) None None
       (fresh (PushImage_init (Some (PyStr ''alpine'')) None None)) =
     (Inl (ValueError ''A repository to push the image to must be specified.''),
      fresh (PushImage_init (Some (PyStr ''alpine'')) None None))
   \<and> RemoveImage_run stub (Some (PyStr '''')) None None
       (fresh (RemoveImage_init (Some (PyStr ''alpine'')) None None)) =
     (Inl (ValueError ''The name of an image to remove must be provided.''),
      fresh (RemoveImage_init (Some (PyStr ''alpine'')) None None))
   \<and> TagImage_run stub (Some (PyStr '''')) None None None None
       (fresh (TagImage_init (Some (PyStr ''alpine'')) (Some (PyStr ''me/alpine'')) None None None)) =
     (Inl (ValueError ''Both image and repository must be provided.''),
      fresh (TagImage_init (Some (PyStr ''alpine'')) (Some (PyStr ''me/alpine'')) None None None))
   \<and> TagImage_run stub None (Some (PyStr '''')) None None None
       (fresh (TagImage_init (Some (PyStr ''alpine'')) (Some (PyStr ''me/alpine'')) None None None)) =
     (Inl (ValueError ''Both image and repository must be provided.''),
      fresh (TagImage_init (Some (PyStr ''alpine'')) (Some (PyStr ''me/alpine'')) None None None))"
  using C10_empty_string_overrides [where d = stub
      and ?t2.0 = None and ?u2.0 = None
      and ?s2.0 = "fresh (PullImage_init (Some (PyStr ''alpine'')) None None)"
      and ?t3.0 = None and ?u3.0 = None
      and ?s3.0 = "fresh (PushImage_init (Some (PyStr ''alpine'')) None None)"
      and ?f4.0 = None and ?u4.0 = None
      and ?s4.0 = "fresh (RemoveImage_init (Some (PyStr ''alpine'')) None None)"
      and ?r5.0 = None and ?t5.0 = None and ?f5.0 = None and ?u5.0 = None
      and ?s5.0 = "fresh (TagImage_init (Some (PyStr ''alpine'')) (Some (PyStr ''me/alpine'')) None None None)"
      and ?i6.0 = None and ?t6.0 = None and ?f6.0 = None and ?u6.0 = None
      and ?s6.0 = "fresh (TagImage_init (Some (PyStr ''alpine'')) (Some (PyStr ''me/alpine'')) None None None)"]
  by (simp add: fresh_def init_defs)

end
